theory Spec2Isabelle
  imports Complex_Main "HOL-Library.Char_ord" "HOL-Library.List_Lexorder" "HOL-Library.Log_Nat"
begin

section \<open>Numeric values of the dataframe columns\<close>

text \<open>
  The numeric columns of the sales table are float64 columns. A cell is a finite
  binary64 number, written as the rational it stands for, an infinity or NaN (which
  pandas also uses for a missing cell). Every operation rounds its exact result to
  binary64, to nearest with ties to even, and overflows to an infinity, as IEEE 754
  prescribes. The sign of zero is not modelled: zero is the positive zero, which is
  what an empty sum and a product with a non-negative factor give.
\<close>

datatype fval = Fin rat | PInf | NInf | NaN

text \<open>\<open>rint\<close> rounds to the nearest integer, ties to the even one.\<close>

definition rint :: "rat \<Rightarrow> int" where
  "rint q =
     (let f = \<lfloor>q\<rfloor>; d = q - of_int f
      in if d < 1 / 2 then f
         else if 1 / 2 < d then f + 1
         else if even f then f else f + 1)"

definition pow2 :: "int \<Rightarrow> rat" where
  "pow2 k = (if 0 \<le> k then 2 ^ nat k else 1 / 2 ^ nat (- k))"

text \<open>The binary exponent of a positive rational: \<open>2 ^ expo q \<le> q < 2 ^ (expo q + 1)\<close>.\<close>

definition expo :: "rat \<Rightarrow> int" where
  "expo q = (let d = bitlen (fst (quotient_of q)) - bitlen (snd (quotient_of q))
             in if pow2 d \<le> q then d else d - 1)"

text \<open>
  Rounding to binary64: 53 significant bits, the least exponent of a unit in the last
  place is -1074 (subnormal numbers), and a rounded magnitude of \<open>2 ^ 1024\<close> or more
  is an infinity.
\<close>

definition rnd64 :: "rat \<Rightarrow> fval" where
  "rnd64 q =
     (if q = 0 then Fin 0
      else let k = max (expo \<bar>q\<bar> - 52) (- 1074);
               v = of_int (rint (\<bar>q\<bar> / pow2 k)) * pow2 k
           in if pow2 1024 \<le> v then (if 0 < q then PInf else NInf)
              else Fin (if 0 < q then v else - v))"

text \<open>An int64 cell that meets a float64 cell is converted to float64 first.\<close>

definition i2f :: "int \<Rightarrow> fval" where
  "i2f n = rnd64 (of_int n)"

fun fneg :: "fval \<Rightarrow> fval" where
  "fneg (Fin a) = Fin (- a)"
| "fneg PInf = NInf"
| "fneg NInf = PInf"
| "fneg NaN = NaN"

text \<open>Adding zero to a number gives the number itself; every other finite sum is rounded.\<close>

fun fadd :: "fval \<Rightarrow> fval \<Rightarrow> fval" where
  "fadd (Fin a) (Fin b) = (if a = 0 then Fin b else if b = 0 then Fin a else rnd64 (a + b))"
| "fadd NaN _ = NaN"
| "fadd _ NaN = NaN"
| "fadd PInf NInf = NaN"
| "fadd NInf PInf = NaN"
| "fadd PInf _ = PInf"
| "fadd _ PInf = PInf"
| "fadd NInf _ = NInf"
| "fadd _ NInf = NInf"

definition fsub :: "fval \<Rightarrow> fval \<Rightarrow> fval" where
  "fsub x y = fadd x (fneg y)"

fun fmul :: "fval \<Rightarrow> fval \<Rightarrow> fval" where
  "fmul (Fin a) (Fin b) = rnd64 (a * b)"
| "fmul NaN _ = NaN"
| "fmul _ NaN = NaN"
| "fmul (Fin a) PInf = (if a = 0 then NaN else if 0 < a then PInf else NInf)"
| "fmul (Fin a) NInf = (if a = 0 then NaN else if 0 < a then NInf else PInf)"
| "fmul PInf (Fin b) = (if b = 0 then NaN else if 0 < b then PInf else NInf)"
| "fmul NInf (Fin b) = (if b = 0 then NaN else if 0 < b then NInf else PInf)"
| "fmul PInf PInf = PInf"
| "fmul PInf NInf = NInf"
| "fmul NInf PInf = NInf"
| "fmul NInf NInf = PInf"

text \<open>
  Division of float columns never raises: a finite non-zero value over zero is an
  infinity, zero over zero is NaN.
\<close>

fun fdiv :: "fval \<Rightarrow> fval \<Rightarrow> fval" where
  "fdiv (Fin a) (Fin b) =
     (if b = 0 then (if a = 0 then NaN else if 0 < a then PInf else NInf)
      else rnd64 (a / b))"
| "fdiv NaN _ = NaN"
| "fdiv _ NaN = NaN"
| "fdiv (Fin a) PInf = Fin 0"
| "fdiv (Fin a) NInf = Fin 0"
| "fdiv PInf (Fin b) = (if 0 \<le> b then PInf else NInf)"
| "fdiv NInf (Fin b) = (if 0 \<le> b then NInf else PInf)"
| "fdiv PInf PInf = NaN"
| "fdiv PInf NInf = NaN"
| "fdiv NInf PInf = NaN"
| "fdiv NInf NInf = NaN"

text \<open>
  \<open>round(2)\<close> of a float column is numpy's: multiply by 100, round to the nearest
  integer, divide by 100, each step in binary64; the infinities and NaN pass through.
\<close>

fun frint :: "fval \<Rightarrow> fval" where
  "frint (Fin q) = Fin (of_int (rint q))"
| "frint x = x"

definition fround2 :: "fval \<Rightarrow> fval" where
  "fround2 x = fdiv (frint (fmul x (Fin 100))) (Fin 100)"

text \<open>
  \<open>Series.sum()\<close> skips NaN cells and adds the rest to 0, here from left to right,
  which is numpy's order for fewer than 8 cells (longer columns are added in blocks,
  and the last bits of the result can differ). \<open>Series.mean()\<close> divides that sum by
  the number of cells that are not NaN and is NaN when there is none.
\<close>

definition notna :: "fval \<Rightarrow> bool" where
  "notna x = (x \<noteq> NaN)"

definition fsum :: "fval list \<Rightarrow> fval" where
  "fsum xs = foldl fadd (Fin 0) (filter notna xs)"

definition fmean :: "fval list \<Rightarrow> fval" where
  "fmean xs =
     (let ys = filter notna xs
      in if ys = [] then NaN
         else fdiv (foldl fadd (Fin 0) ys) (i2f (int (length ys))))"




section \<open>Strings of integers and periods\<close>

definition digit_char :: "nat \<Rightarrow> char" where
  "digit_char d = ''0123456789'' ! d"

fun str_nat :: "nat \<Rightarrow> string" where
  "str_nat n = (if n < 10 then [digit_char n] else str_nat (n div 10) @ [digit_char (n mod 10)])"

declare str_nat.simps [simp del]

definition str_int :: "int \<Rightarrow> string" where
  "str_int i = (if i < 0 then ''-'' @ str_nat (nat (- i)) else str_nat (nat i))"

definition zfill :: "nat \<Rightarrow> string \<Rightarrow> string" where
  "zfill w s = replicate (w - length s) (CHR ''0'') @ s"

section \<open>The sales table\<close>

text \<open>
  A row of \<open>dataset_vendas_completo.csv\<close> after \<open>pd.read_csv\<close> and
  \<open>pd.to_datetime\<close> have succeeded: \<open>data\<close> is a timestamp, \<open>ano\<close>, \<open>mes\<close>,
  \<open>trimestre\<close> and \<open>quantidade_vendida\<close> are integer columns, the texts are strings
  and the other columns are floats. The category of a row can be missing (\<open>None\<close>).
  A table is the list of its rows, in order; a column is \<open>map field df\<close>. Integer
  cells are unbounded integers: the wrap-around of an int64 sum is not modelled.
\<close>

record timestamp =
  year :: nat
  month :: nat
  day :: nat

record venda =
  data :: timestamp
  ano :: int
  mes :: int
  trimestre :: int
  regiao :: string
  produto :: string
  categoria :: "string option"
  quantidade_vendida :: int
  preco_unitario :: fval
  custo_unitario :: fval
  faturamento :: fval
  lucro_bruto :: fval
  margem_lucro :: fval
  ticket_medio :: fval

record venda_prep = venda +
  ano_mes :: string
  semestre :: string
  ano_semestre :: string
  roi :: fval

subsection \<open>carregar\_dados\<close>

definition periodo_M :: "timestamp \<Rightarrow> string" where
  "periodo_M t = zfill 4 (str_nat (year t)) @ ''-'' @ zfill 2 (str_nat (month t))"

definition semestre_de :: "nat \<Rightarrow> string" where
  "semestre_de x = (if x \<le> 6 then ''S1'' else ''S2'')"

definition roi_de :: "fval \<Rightarrow> fval \<Rightarrow> int \<Rightarrow> fval" where
  "roi_de lucro custo qtd =
     fround2 (fmul (fdiv lucro (fmul custo (i2f qtd))) (Fin 100))"

text \<open>
  The four added columns are computed element by element, so the prepared table is
  the map of \<open>preparar\<close> over the rows.
\<close>

definition preparar :: "venda \<Rightarrow> venda_prep" where
  "preparar r =
     venda.extend r
       (venda_prep.fields
          (periodo_M (data r))
          (semestre_de (month (data r)))
          (str_int (ano r) @ ''-'' @ semestre_de (month (data r)))
          (roi_de (lucro_bruto r) (custo_unitario r) (quantidade_vendida r)))"

text \<open>
  The file is absent or holds a table. \<open>carregar_dados\<close> catches
  \<open>FileNotFoundError\<close>, shows an error box and returns \<open>None\<close>; the messages it
  shows are returned with the result.
\<close>

datatype arquivo = Ausente | Presente "venda list"

datatype mensagem = ArquivoNaoEncontrado | NaoFoiPossivelCarregar

definition carregar_dados :: "arquivo \<Rightarrow> mensagem list \<times> venda_prep list option" where
  "carregar_dados f =
     (case f of
        Presente linhas \<Rightarrow> ([], Some (map preparar linhas))
      | Ausente \<Rightarrow> ([ArquivoNaoEncontrado], None))"

subsection \<open>calcular\_metricas\_principais\<close>

text \<open>
  \<open>col.isin(vals)\<close> and \<open>col == v\<close> give a column of booleans, \<open>&\<close> joins two
  of them cell by cell, and \<open>df[mask]\<close> keeps the rows whose cell is true.
\<close>

definition isin :: "'a list \<Rightarrow> 'a list \<Rightarrow> bool list" where
  "isin col vals = map (\<lambda>v. v \<in> set vals) col"

definition col_eq :: "'a list \<Rightarrow> 'a \<Rightarrow> bool list" where
  "col_eq col v = map (\<lambda>x. x = v) col"

definition mask_and :: "bool list \<Rightarrow> bool list \<Rightarrow> bool list" where
  "mask_and m1 m2 = map (\<lambda>(a, b). a \<and> b) (zip m1 m2)"

definition bool_index :: "'r list \<Rightarrow> bool list \<Rightarrow> 'r list" where
  "bool_index df m = map fst (filter snd (zip df m))"

record metricas =
  faturamento_total :: fval
  crescimento_yoy :: fval
  margem_media :: fval
  m_ticket_medio :: fval
  volume_total :: int
  faturamento_2023 :: fval
  faturamento_2024 :: fval

definition calcular_metricas_principais :: "venda_prep list \<Rightarrow> metricas" where
  "calcular_metricas_principais df =
     (let fat_total = fsum (map faturamento df);
          fat_2023 = fsum (map faturamento (bool_index df (col_eq (map ano df) 2023)));
          fat_2024 = fsum (map faturamento (bool_index df (col_eq (map ano df) 2024)));
          yoy = fmul (fdiv (fsub fat_2024 fat_2023) fat_2023) (Fin 100)
      in \<lparr> faturamento_total = fat_total,
           crescimento_yoy = yoy,
           margem_media = fmean (map margem_lucro df),
           m_ticket_medio = fmean (map ticket_medio df),
           volume_total = sum_list (map quantidade_vendida df),
           faturamento_2023 = fat_2023,
           faturamento_2024 = fat_2024 \<rparr>)"

subsection \<open>The global filters\<close>

text \<open>\<open>sorted(col.unique())\<close>: the distinct values of a column, in ascending order.\<close>

definition disponiveis :: "('a::linorder) list \<Rightarrow> 'a list" where
  "disponiveis col = sort (remdups col)"

definition df_filtrado ::
  "venda_prep list \<Rightarrow> int list \<Rightarrow> string list \<Rightarrow> string list \<Rightarrow> venda_prep list" where
  "df_filtrado df anos_selecionados regioes_selecionadas produtos_selecionados =
     bool_index df
       (mask_and
          (mask_and (isin (map ano df) anos_selecionados)
                    (isin (map regiao df) regioes_selecionadas))
          (isin (map produto df) produtos_selecionados))"

subsection \<open>Grouped aggregations\<close>





subsection \<open>The script\<close>

text \<open>
  One run of the script, as the list of what it puts on the screen and the two values
  it computes for the pages. The user's input is the page chosen in the sidebar and
  what is chosen in each of the three multiselect boxes (\<open>None\<close>: the box is left at
  its default, all the available values). The body of a page is one event.
\<close>

datatype pagina =
    VisaoGeral | BusinessUnderstanding | DataUnderstanding | DataPreparation
  | ModelingAnalysis | Evaluation | Deployment | ConceitosVisualizacao

datatype evento =
    SetPageConfig
  | EstiloCSS
  | SidebarImage
  | SidebarTitle
  | SidebarMarkdown
  | SidebarSelectbox
  | StError mensagem
  | SidebarSubheader
  | MultiselectAnos "int list"
  | MultiselectRegioes "string list"
  | MultiselectProdutos "string list"
  | ConteudoPagina pagina

record entrada =
  pagina_escolhida :: pagina
  anos_escolhidos :: "int list option"
  regioes_escolhidas :: "string list option"
  produtos_escolhidos :: "string list option"

record sessao =
  eventos :: "evento list"
  filtrado :: "venda_prep list option"
  metricas_calc :: "metricas option"

definition multiselect :: "'a list \<Rightarrow> 'a list option \<Rightarrow> 'a list" where
  "multiselect opcoes escolha = (case escolha of None \<Rightarrow> opcoes | Some s \<Rightarrow> s)"

definition cabecalho :: "evento list" where
  "cabecalho =
     [SetPageConfig, EstiloCSS, SidebarImage, SidebarTitle, SidebarMarkdown,
      SidebarSelectbox, SidebarMarkdown]"

definition script :: "arquivo \<Rightarrow> entrada \<Rightarrow> sessao" where
  "script f u =
     (let (msgs, df) = carregar_dados f;
          s0 = \<lparr> eventos = cabecalho @ map StError msgs, filtrado = None, metricas_calc = None \<rparr>;
          s1 = (case df of
                  Some d \<Rightarrow>
                    let anos_selecionados = multiselect (disponiveis (map ano d)) (anos_escolhidos u);
                        regioes_selecionadas =
                          multiselect (disponiveis (map regiao d)) (regioes_escolhidas u);
                        produtos_selecionados =
                          multiselect (disponiveis (map produto d)) (produtos_escolhidos u);
                        fd = df_filtrado d anos_selecionados regioes_selecionadas produtos_selecionados
                    in \<lparr> eventos = eventos s0 @
                           [SidebarSubheader,
                            MultiselectAnos (disponiveis (map ano d)),
                            MultiselectRegioes (disponiveis (map regiao d)),
                            MultiselectProdutos (disponiveis (map produto d))],
                         filtrado = Some fd,
                         metricas_calc = Some (calcular_metricas_principais fd) \<rparr>
                | None \<Rightarrow> s0)
      in (case df of
            None \<Rightarrow> s1 \<lparr> eventos := eventos s1 @ [StError NaoFoiPossivelCarregar] \<rparr>
          | Some d \<Rightarrow> s1 \<lparr> eventos := eventos s1 @ [ConteudoPagina (pagina_escolhida u)] \<rparr>))"

section \<open>Example tables\<close>

text \<open>A row of the raw file used at concrete inputs: 15 March 2023, region Sul.\<close>

definition linha_exemplo :: venda where
  "linha_exemplo =
     \<lparr> data = \<lparr> year = 2023, month = 3, day = 15 \<rparr>,
       ano = 2023, mes = 3, trimestre = 1,
       regiao = ''Sul'', produto = ''Notebook'', categoria = Some ''Eletronicos'',
       quantidade_vendida = 5,
       preco_unitario = Fin 20, custo_unitario = Fin 12,
       faturamento = Fin 100, lucro_bruto = Fin 40,
       margem_lucro = Fin 40, ticket_medio = Fin 20 \<rparr>"


text \<open>A loaded row with the given region, year and revenue; its other cells are those of \<open>b\<close>.\<close>

definition linha :: "string \<Rightarrow> int \<Rightarrow> rat \<Rightarrow> venda_prep \<Rightarrow> venda_prep" where
  "linha reg a f b = b \<lparr> regiao := reg, ano := a, faturamento := Fin f \<rparr>"

text \<open>The three-row table: region A with 100 in 2023 and 120 in 2024, region B with 50 in 2023.\<close>

definition cenario :: "venda_prep \<Rightarrow> venda_prep \<Rightarrow> venda_prep \<Rightarrow> venda_prep list" where
  "cenario b1 b2 b3 = [linha ''A'' 2023 100 b1, linha ''A'' 2024 120 b2, linha ''B'' 2023 50 b3]"

definition tabela_so_2024 :: "venda_prep list" where
  "tabela_so_2024 = [linha ''Sul'' 2024 100 (preparar linha_exemplo)]"

definition tabela_so_2022 :: "venda_prep list" where
  "tabela_so_2022 = [linha ''Sul'' 2022 100 (preparar linha_exemplo)]"

text \<open>Revenues 70 in 2022, 100 in 2023, 150 and 50 in 2024.\<close>

definition tabela_mista :: "venda_prep list" where
  "tabela_mista =
     [linha ''Sul'' 2022 70 (preparar linha_exemplo),
      linha ''Sul'' 2023 100 (preparar linha_exemplo),
      linha ''Sul'' 2024 150 (preparar linha_exemplo),
      linha ''Norte'' 2024 50 (preparar linha_exemplo)]"





section \<open>Masks and boolean indexing\<close>

lemma bool_index_map: "bool_index df (map P df) = filter P df"
  by (induction df) (simp_all add: bool_index_def)

lemma mask_and_map: "mask_and (map P xs) (map Q xs) = map (\<lambda>x. P x \<and> Q x) xs"
  by (induction xs) (simp_all add: mask_and_def)

lemma isin_map: "isin (map f df) vals = map (\<lambda>r. f r \<in> set vals) df"
  by (simp add: isin_def)

lemma col_eq_map: "col_eq (map f df) v = map (\<lambda>r. f r = v) df"
  by (simp add: col_eq_def)

lemma df_filtrado_filter:
  "df_filtrado df a r p =
     filter (\<lambda>x. ano x \<in> set a \<and> regiao x \<in> set r \<and> produto x \<in> set p) df"
  by (simp add: df_filtrado_def isin_map mask_and_map bool_index_map)

lemma set_disponiveis: "set (disponiveis col) = set col"
  by (simp add: disponiveis_def)

section \<open>Rounding to binary64\<close>

lemma rint_of_int [simp]: "rint (of_int m) = m"
  by (simp add: rint_def)

lemma rint_numeral [simp]: "rint (numeral w) = numeral w"
  using rint_of_int [of "numeral w"] by simp

lemma pow2_powi: "pow2 k = 2 powi k"
  by (simp add: pow2_def power_int_def field_simps)

lemma pow2_mono: "a \<le> b \<Longrightarrow> pow2 a \<le> pow2 b"
  by (simp add: pow2_powi power_int_increasing)

lemma pow2_less_exp: "pow2 a < pow2 b \<Longrightarrow> 0 \<le> b \<Longrightarrow> a < b"
  unfolding pow2_powi by (rule power_int_le_imp_less_exp [of 2]) simp_all

text \<open>The exponent found through the bit lengths is not above the number.\<close>

lemma expo_lower:
  assumes "0 < q"
  shows "pow2 (expo q) \<le> q"
proof -
  obtain a b where ab: "quotient_of q = (a, b)" by (cases "quotient_of q")
  then have b: "0 < b" and q: "q = of_int a / of_int b"
    using quotient_of_denom_pos quotient_of_div by blast+
  with assms have a: "0 < a"
    by (simp add: zero_less_divide_iff)
  let ?d = "bitlen a - bitlen b"
  show ?thesis
  proof (cases "pow2 ?d \<le> q")
    case True
    then show ?thesis by (simp add: expo_def ab Let_def)
  next
    case False
    have la: "(2::int) ^ nat (bitlen a - 1) \<le> a" using bitlen_bounds [OF a] by blast
    have lb: "b < (2::int) ^ nat (bitlen b)" using bitlen_bounds [OF b] by blast
    have la1: "1 \<le> bitlen a" using a by (simp add: bitlen_alt_def)
    have "pow2 (?d - 1) = 2 powi (bitlen a - 1) / 2 powi (bitlen b)"
      by (simp add: pow2_powi power_int_diff)
    also have "\<dots> = of_int (2 ^ nat (bitlen a - 1)) / of_int (2 ^ nat (bitlen b))"
      using la1 bitlen_nonneg [of b] by (simp add: power_int_def)
    also have "\<dots> \<le> of_int a / of_int b"
    proof (rule frac_le)
      show "(0::rat) \<le> of_int a" using a by simp
      show "(of_int (2 ^ nat (bitlen a - 1)) :: rat) \<le> of_int a"
        using la by (simp only: of_int_le_iff)
      show "(0::rat) < of_int b" using b by simp
      show "(of_int b :: rat) \<le> of_int (2 ^ nat (bitlen b))"
        using lb by (simp only: of_int_le_iff)
    qed
    finally have "pow2 (?d - 1) \<le> q" by (simp only: q)
    with False show ?thesis by (simp add: expo_def ab Let_def)
  qed
qed

text \<open>An integer below \<open>2 ^ 53\<close> in magnitude is a binary64 number: rounding keeps it.\<close>

lemma rnd64_int:
  assumes "\<bar>n\<bar> < 2 ^ 53"
  shows "rnd64 (of_int n) = Fin (of_int n)"
proof (cases "n = 0")
  case True
  then show ?thesis by (simp add: rnd64_def)
next
  case False
  let ?q = "\<bar>of_int n :: rat\<bar>"
  have q0: "0 < ?q" using False by simp
  have qn: "?q = of_int \<bar>n\<bar>" by simp
  have "?q < 2 ^ 53"
    using assms unfolding qn by (metis of_int_less_iff of_int_numeral of_int_power)
  then have q53: "?q < pow2 53" by (simp add: pow2_def)
  with expo_lower [OF q0] have "pow2 (expo ?q) < pow2 53" by linarith
  then have "expo ?q < 53" by (rule pow2_less_exp) simp
  then have e: "expo ?q \<le> 52" by simp
  define k where "k = max (expo ?q - 52) (- 1074)"
  have k: "k \<le> 0" "- 1074 \<le> k" using e by (simp_all add: k_def)
  define j where "j = nat (- k)"
  have pk: "pow2 k = 1 / 2 ^ j"
    using k by (cases "k = 0") (simp_all add: pow2_def j_def)
  have "?q / (1 / 2 ^ j) = of_int (\<bar>n\<bar> * 2 ^ j)"
    by simp
  then have r: "rint (?q / (1 / 2 ^ j)) = \<bar>n\<bar> * 2 ^ j"
    by (simp only: rint_of_int)
  have "of_int (rint (?q / pow2 k)) * pow2 k = rat_of_int (\<bar>n\<bar> * 2 ^ j) * (1 / 2 ^ j)"
    by (simp only: pk r)
  also have "\<dots> = ?q" by simp
  finally have v: "of_int (rint (?q / pow2 k)) * pow2 k = ?q" .
  have "?q < pow2 1024"
    using q53 pow2_mono [of 53 1024] by linarith
  then have nov: "\<not> pow2 1024 \<le> ?q" by simp
  let ?v = "of_int (rint (?q / pow2 k)) * pow2 k"
  have n0: "(of_int n :: rat) \<noteq> 0" using False by simp
  have "rnd64 (of_int n) =
      (if pow2 1024 \<le> ?v then (if 0 < (of_int n :: rat) then PInf else NInf)
       else Fin (if 0 < (of_int n :: rat) then ?v else - ?v))"
    unfolding rnd64_def Let_def k_def using n0 by (simp only: if_False)
  also have "\<dots> = Fin (if 0 < (of_int n :: rat) then ?q else - ?q)"
    using nov by (simp only: v if_False)
  also have "\<dots> = Fin (of_int n)"
    by (simp add: abs_if)
  finally show ?thesis .
qed

lemma rnd64_numeral:
  "(numeral w :: int) < 2 ^ 53 \<Longrightarrow> rnd64 (numeral w) = Fin (numeral w)"
  using rnd64_int [of "numeral w"] by simp

lemma rnd64_neg_numeral:
  "(numeral w :: int) < 2 ^ 53 \<Longrightarrow> rnd64 (- numeral w) = Fin (- numeral w)"
  using rnd64_int [of "- numeral w"] by simp

lemma pow2_less_iff: "pow2 a < pow2 b \<longleftrightarrow> a < b"
proof
  assume "pow2 a < pow2 b"
  show "a < b"
  proof (rule ccontr)
    assume "\<not> a < b"
    then have "pow2 b \<le> pow2 a" by (simp add: pow2_mono)
    with \<open>pow2 a < pow2 b\<close> show False by simp
  qed
next
  assume "a < b"
  then show "pow2 a < pow2 b"
    by (simp add: pow2_powi power_int_strict_increasing)
qed

lemma expo_upper:
  assumes "0 < q"
  shows "q < pow2 (expo q + 1)"
proof -
  obtain a b where ab: "quotient_of q = (a, b)" by (cases "quotient_of q")
  then have b: "0 < b" and q: "q = of_int a / of_int b"
    using quotient_of_denom_pos quotient_of_div by blast+
  with assms have a: "0 < a"
    by (simp add: zero_less_divide_iff)
  let ?d = "bitlen a - bitlen b"
  show ?thesis
  proof (cases "pow2 ?d \<le> q")
    case False
    then show ?thesis by (simp add: expo_def ab Let_def)
  next
    case True
    have la: "a < (2::int) ^ nat (bitlen a)" using bitlen_bounds [OF a] by blast
    have lb: "(2::int) ^ nat (bitlen b - 1) \<le> b" using bitlen_bounds [OF b] by blast
    have lb1: "1 \<le> bitlen b" using b by (simp add: bitlen_alt_def)
    have "of_int a / of_int b < (of_int (2 ^ nat (bitlen a)) :: rat) / of_int (2 ^ nat (bitlen b - 1))"
    proof (rule frac_less)
      show "(0::rat) \<le> of_int a" using a by simp
      show "(of_int a :: rat) < of_int (2 ^ nat (bitlen a))"
        using la by (simp only: of_int_less_iff)
      show "(0::rat) < of_int (2 ^ nat (bitlen b - 1))" by simp
      show "(of_int (2 ^ nat (bitlen b - 1)) :: rat) \<le> of_int b"
        using lb by (simp only: of_int_le_iff)
    qed
    also have "\<dots> = 2 powi (bitlen a) / 2 powi (bitlen b - 1)"
      using lb1 bitlen_nonneg [of a] by (simp add: power_int_def)
    also have "\<dots> = pow2 (?d + 1)"
      by (simp add: pow2_powi power_int_diff [symmetric] algebra_simps)
    finally have "q < pow2 (?d + 1)" by (simp only: q)
    with True show ?thesis by (simp add: expo_def ab Let_def)
  qed
qed

lemma expo_unique:
  assumes "0 < q" "pow2 e \<le> q" "q < pow2 (e + 1)"
  shows "expo q = e"
proof -
  have "pow2 (expo q) < pow2 (e + 1)"
    using expo_lower [OF assms(1)] assms(3) by linarith
  then have "expo q < e + 1" by (simp only: pow2_less_iff)
  moreover have "pow2 e < pow2 (expo q + 1)"
    using expo_upper [OF assms(1)] assms(2) by linarith
  then have "e < expo q + 1" by (simp only: pow2_less_iff)
  ultimately show ?thesis by simp
qed

lemma rint_nearest:
  assumes "\<bar>q - of_int m\<bar> < 1 / 2"
  shows "rint q = m"
proof -
  have "of_int m - 1 \<le> q" using assms by linarith
  then have "of_int (m - 1) \<le> q" by simp
  then have lo: "m - 1 \<le> \<lfloor>q\<rfloor>" by (simp only: le_floor_iff)
  have "q < of_int m + 1" using assms by linarith
  then have "q < of_int (m + 1)" by simp
  then have hi: "\<lfloor>q\<rfloor> < m + 1" by (simp only: floor_less_iff)
  show ?thesis
  proof (cases "\<lfloor>q\<rfloor> = m")
    case True
    have "q - of_int m < 1 / 2" using assms by linarith
    with True show ?thesis by (simp add: rint_def Let_def)
  next
    case False
    with lo hi have f: "\<lfloor>q\<rfloor> = m - 1" by simp
    have "1 / 2 < q - (of_int m - 1)" using assms by linarith
    then have "1 / 2 < q - of_int (m - 1)" by simp
    then have "\<not> q - of_int (m - 1) < 1 / 2" by linarith
    with f \<open>1 / 2 < q - of_int (m - 1)\<close> show ?thesis
      by (simp only: rint_def Let_def if_True if_False)
  qed
qed

lemma rint_tie:
  assumes "q = of_int f + 1 / 2"
  shows "rint q = (if even f then f else f + 1)"
proof -
  have "\<lfloor>q\<rfloor> = f"
    by (rule floor_unique) (simp_all add: assms)
  then show ?thesis by (simp add: rint_def Let_def assms)
qed

text \<open>
  How a rounding is checked at a concrete number: give its binary exponent \<open>e\<close> and
  the number's integer \<open>m\<close> in units of the last place.
\<close>

lemma rnd64_rintI:
  assumes "0 < q" "pow2 e \<le> q" "q < pow2 (e + 1)" "k = max (e - 52) (- 1074)"
    and "rint (q / pow2 k) = m" "of_int m * pow2 k < pow2 1024"
  shows "rnd64 q = Fin (of_int m * pow2 k)" "rnd64 (- q) = Fin (- (of_int m * pow2 k))"
proof -
  have e: "expo q = e" using assms(1-3) by (rule expo_unique)
  have r: "rint (q / pow2 k) = m" using assms(5) .
  have q: "\<bar>q\<bar> = q" "\<bar>- q\<bar> = q" "q \<noteq> 0" "\<not> 0 < - q" using assms(1) by simp_all
  have nov: "\<not> pow2 1024 \<le> of_int m * pow2 k" using assms(6) by simp
  show "rnd64 q = Fin (of_int m * pow2 k)"
    unfolding rnd64_def Let_def q e assms(4) [symmetric] r
    using q(3) nov assms(1) by simp
  show "rnd64 (- q) = Fin (- (of_int m * pow2 k))"
    unfolding rnd64_def Let_def q e assms(4) [symmetric] r
    using q(3,4) nov by simp
qed

lemma rnd64_evalI:
  assumes "0 < q" "pow2 e \<le> q" "q < pow2 (e + 1)" "k = max (e - 52) (- 1074)"
    and "\<bar>q / pow2 k - of_int m\<bar> < 1 / 2" "of_int m * pow2 k < pow2 1024"
  shows "rnd64 q = Fin (of_int m * pow2 k)" "rnd64 (- q) = Fin (- (of_int m * pow2 k))"
  using rnd64_rintI [OF assms(1-4) rint_nearest [OF assms(5)] assms(6)] by blast+

lemma rnd64_tieI:
  assumes "0 < q" "pow2 e \<le> q" "q < pow2 (e + 1)" "k = max (e - 52) (- 1074)"
    and "q / pow2 k = of_int f + 1 / 2"
    and "of_int (if even f then f else f + 1) * pow2 k < pow2 1024"
  shows "rnd64 q = Fin (of_int (if even f then f else f + 1) * pow2 k)"
    "rnd64 (- q) = Fin (- (of_int (if even f then f else f + 1) * pow2 k))"
  using rnd64_rintI [OF assms(1-4) rint_tie [OF assms(5)] assms(6)] by blast+

lemma rnd64_zero [simp]: "rnd64 0 = Fin 0"
  by (simp add: rnd64_def)

lemma rnd64_one: "rnd64 1 = Fin 1" "rnd64 (- 1) = Fin (- 1)"
  using rnd64_int [of 1] rnd64_int [of "- 1"] by simp_all

subsection \<open>Roundings at concrete numbers\<close>

text \<open>
  The roundings that the examples below go through, each checked with its binary
  exponent and its integer in units of the last place. 1 / 10, 2 / 5 and 3 / 5 stand
  for the binary64 numbers written 0.1, 0.4 and 0.6.
\<close>

lemma arred_1: "rnd64 (1 / 10) = Fin (3602879701896397 / 36028797018963968)"
  using rnd64_evalI(1) [of "1 / 10" "- 4" "- 56" 7205759403792794] by (simp add: pow2_def)

lemma arred_2: "rnd64 (23 / 160) = Fin (2589569785738035 / 18014398509481984)"
  using rnd64_evalI(1) [of "23 / 160" "- 3" "- 55" 5179139571476070] by (simp add: pow2_def)

lemma arred_3: "rnd64 (1 / 5) = Fin (3602879701896397 / 18014398509481984)"
  using rnd64_evalI(1) [of "1 / 5" "- 3" "- 55" 7205759403792794] by (simp add: pow2_def)

lemma arred_4: "rnd64 (3602879701896397 / 18014398509481984) = Fin (3602879701896397 / 18014398509481984)"
  using rnd64_evalI(1) [of "3602879701896397 / 18014398509481984" "- 3" "- 55" 7205759403792794] by (simp add: pow2_def)

lemma arred_5: "rnd64 (14411518807585587 / 36028797018963968) = Fin (3602879701896397 / 9007199254740992)"
  using rnd64_tieI(1) [of "14411518807585587 / 36028797018963968" "- 2" "- 54" 7205759403792793] by (simp add: pow2_def)

lemma arred_6: "rnd64 (2 / 5) = Fin (3602879701896397 / 9007199254740992)"
  using rnd64_evalI(1) [of "2 / 5" "- 2" "- 54" 7205759403792794] by (simp add: pow2_def)

lemma arred_7: "rnd64 (1 / 2) = Fin (1 / 2)"
  using rnd64_evalI(1) [of "1 / 2" "- 1" "- 53" 4503599627370496] by (simp add: pow2_def)

lemma arred_8: "rnd64 (18014398509481985 / 36028797018963968) = Fin (1 / 2)"
  using rnd64_evalI(1) [of "18014398509481985 / 36028797018963968" "- 1" "- 53" 4503599627370496] by (simp add: pow2_def)

lemma arred_9: "rnd64 (3 / 5) = Fin (5404319552844595 / 9007199254740992)"
  using rnd64_evalI(1) [of "3 / 5" "- 1" "- 53" 5404319552844595] by (simp add: pow2_def)

lemma arred_10: "rnd64 (21617278211378381 / 36028797018963968) = Fin (5404319552844595 / 9007199254740992)"
  using rnd64_evalI(1) [of "21617278211378381 / 36028797018963968" "- 1" "- 53" 5404319552844595] by (simp add: pow2_def)

lemma arred_11: "rnd64 (10808639105689191 / 18014398509481984) = Fin (1351079888211149 / 2251799813685248)"
  using rnd64_tieI(1) [of "10808639105689191 / 18014398509481984" "- 1" "- 53" 5404319552844595] by (simp add: pow2_def)

lemma arred_12: "rnd64 (2 / 3) = Fin (6004799503160661 / 9007199254740992)"
  using rnd64_evalI(1) [of "2 / 3" "- 1" "- 53" 6004799503160661] by (simp add: pow2_def)

lemma arred_13: "rnd64 (90071992547409925 / 9007199254740992) = Fin (10)"
  using rnd64_evalI(1) [of "90071992547409925 / 9007199254740992" "3" "- 49" 5629499534213120] by (simp add: pow2_def)

lemma arred_14: "rnd64 (1437 / 100) = Fin (8089590830664253 / 562949953421312)"
  using rnd64_evalI(1) [of "1437 / 100" "3" "- 49" 8089590830664253] by (simp add: pow2_def)

lemma arred_15: "rnd64 (64739244643450875 / 4503599627370496) = Fin (8092405580431359 / 562949953421312)"
  using rnd64_evalI(1) [of "64739244643450875 / 4503599627370496" "3" "- 49" 8092405580431359] by (simp add: pow2_def)

lemma arred_16: "rnd64 (719 / 50) = Fin (8095220330198467 / 562949953421312)"
  using rnd64_evalI(1) [of "719 / 50" "3" "- 49" 8095220330198467] by (simp add: pow2_def)

lemma arred_17: "rnd64 (90071992547409925 / 4503599627370496) = Fin (20)"
  using rnd64_evalI(1) [of "90071992547409925 / 4503599627370496" "4" "- 48" 5629499534213120] by (simp add: pow2_def)

lemma arred_18: "rnd64 (150119987579016525 / 2251799813685248) = Fin (2345624805922133 / 35184372088832)"
  using rnd64_evalI(1) [of "150119987579016525 / 2251799813685248" "6" "- 46" 4691249611844266] by (simp add: pow2_def)

lemma arred_19: "rnd64 (6667 / 100) = Fin (4691484174324859 / 70368744177664)"
  using rnd64_evalI(1) [of "6667 / 100" "6" "- 46" 4691484174324859] by (simp add: pow2_def)

lemma arred_20: "rnd64 (202310139510783975 / 140737488355328) = Fin (6322191859711999 / 4398046511104)"
  using rnd64_evalI(1) [of "202310139510783975 / 140737488355328" "10" "- 42" 6322191859711999] by (simp add: pow2_def)

lemma arred_21: "rnd64 (58640620148053325 / 8796093022208) = Fin (3665038759253333 / 549755813888)"
  using rnd64_evalI(1) [of "58640620148053325 / 8796093022208" "12" "- 40" 7330077518506666] by (simp add: pow2_def)

lemmas arredondamentos = arred_1 arred_2 arred_3 arred_4 arred_5 arred_6 arred_7 arred_8 arred_9 arred_10 arred_11 arred_12 arred_13 arred_14 arred_15 arred_16 arred_17 arred_18 arred_19 arred_20 arred_21

section \<open>The metrics, unfolded\<close>

lemma fsum_Nil [simp]: "fsum [] = Fin 0"
  by (simp add: fsum_def)

lemma metricas_2023:
  "faturamento_2023 (calcular_metricas_principais df)
   = fsum (map faturamento (filter (\<lambda>r. ano r = 2023) df))"
  by (simp add: calcular_metricas_principais_def Let_def col_eq_map bool_index_map)

lemma metricas_2024:
  "faturamento_2024 (calcular_metricas_principais df)
   = fsum (map faturamento (filter (\<lambda>r. ano r = 2024) df))"
  by (simp add: calcular_metricas_principais_def Let_def col_eq_map bool_index_map)

lemma metricas_yoy:
  "crescimento_yoy (calcular_metricas_principais df)
   = fmul (fdiv (fsub (faturamento_2024 (calcular_metricas_principais df))
                      (faturamento_2023 (calcular_metricas_principais df)))
                (faturamento_2023 (calcular_metricas_principais df))) (Fin 100)"
  by (simp add: calcular_metricas_principais_def Let_def)


section \<open>Sums of whole numbers\<close>

text \<open>
  Sums and differences of integers stay exact as long as they stay below \<open>2 ^ 53\<close>
  in magnitude, in whatever order they are added.
\<close>

lemma sum_abs_nonneg: "0 \<le> sum_list (map abs (ns :: int list))"
  by (induction ns) simp_all

lemma fadd_int:
  assumes "\<bar>a + b\<bar> < 2 ^ 53"
  shows "fadd (Fin (of_int a)) (Fin (of_int b)) = Fin (of_int (a + b))"
proof -
  have "rnd64 (of_int a + of_int b) = Fin (of_int (a + b))"
    using rnd64_int [OF assms] by simp
  then show ?thesis by simp
qed

lemma fsub_int:
  assumes "\<bar>a - b\<bar> < 2 ^ 53"
  shows "fsub (Fin (of_int a)) (Fin (of_int b)) = Fin (of_int (a - b))"
  using fadd_int [of a "- b"] assms by (simp add: fsub_def)

lemma foldl_fadd_ints:
  "\<bar>a\<bar> + sum_list (map abs ns) < 2 ^ 53 \<Longrightarrow>
   foldl fadd (Fin (of_int a)) (map (\<lambda>n. Fin (of_int n)) ns) = Fin (of_int (a + sum_list ns))"
proof (induction ns arbitrary: a)
  case Nil
  show ?case by simp
next
  case (Cons n ns)
  have "\<bar>a + n\<bar> < 2 ^ 53" using Cons.prems sum_abs_nonneg [of ns]
    by simp
  then have step: "fadd (Fin (of_int a)) (Fin (of_int n)) = Fin (of_int (a + n))"
    by (rule fadd_int)
  have "\<bar>a + n\<bar> + sum_list (map abs ns) < 2 ^ 53" using Cons.prems
    by simp
  from Cons.IH [OF this] step show ?case
    by (simp only: list.map foldl_Cons sum_list.Cons add.assoc)
qed

lemma notna_ints: "filter notna (map (\<lambda>n. Fin (of_int n)) ns) = map (\<lambda>n. Fin (of_int n)) ns"
  by (induction ns) (simp_all add: notna_def)

lemma fsum_ints:
  assumes "sum_list (map abs ns) < 2 ^ 53"
  shows "fsum (map (\<lambda>n. Fin (of_int n)) ns) = Fin (of_int (sum_list ns))"
  using foldl_fadd_ints [of 0 ns] assms by (simp add: fsum_def notna_ints)





section \<open>The filter engine\<close>

text \<open>
  C3. The filtered table is the table restricted to the rows whose year is among the
  selected years and whose region is among the selected regions and whose product is
  among the selected products: the same rows, in the table's order, each as often as
  it occurs; a row is in the result exactly when it is in the table and passes the
  three tests.
\<close>

theorem df_filtrado_conjunction:
  "df_filtrado df anos regioes produtos =
     filter (\<lambda>r. ano r \<in> set anos \<and> regiao r \<in> set regioes \<and> produto r \<in> set produtos) df
   \<and> (r \<in> set (df_filtrado df anos regioes produtos)) =
       (r \<in> set df \<and> ano r \<in> set anos \<and> regiao r \<in> set regioes \<and> produto r \<in> set produtos)"
  by (auto simp add: df_filtrado_filter)

text \<open>
  C4. With the three selections at all the available values of the table (the sorted
  distinct years, regions and products) the filter returns the table itself; a run
  of the script whose three boxes are left at their default filters nothing out.
\<close>

theorem df_filtrado_identity:
  "df_filtrado df (disponiveis (map ano df)) (disponiveis (map regiao df))
       (disponiveis (map produto df)) = df
   \<and> filtrado (script (Presente linhas)
        \<lparr> pagina_escolhida = p, anos_escolhidos = None,
          regioes_escolhidas = None, produtos_escolhidos = None \<rparr>)
      = Some (map preparar linhas)"
  by (simp add: df_filtrado_filter set_disponiveis script_def carregar_dados_def
      multiselect_def Let_def)

text \<open>
  C5. An empty selection of years, of regions or of products gives the empty table,
  whatever the table and the other two selections are; the filter is a total function
  and has no error result. A run of the script in which no year is selected goes on
  with the empty table: it computes the metrics of the empty table and shows no error.
\<close>

theorem df_filtrado_empty_selection:
  "df_filtrado df [] regioes produtos = []
   \<and> df_filtrado df anos [] produtos = []
   \<and> df_filtrado df anos regioes [] = []
   \<and> filtrado (script (Presente linhas) (u \<lparr> anos_escolhidos := Some [] \<rparr>)) = Some []
   \<and> metricas_calc (script (Presente linhas) (u \<lparr> anos_escolhidos := Some [] \<rparr>))
       = Some (calcular_metricas_principais [])
   \<and> StError m \<notin> set (eventos (script (Presente linhas) (u \<lparr> anos_escolhidos := Some [] \<rparr>)))"
  by (simp add: df_filtrado_filter script_def carregar_dados_def multiselect_def Let_def
      cabecalho_def)

section \<open>The derived columns\<close>




text \<open>
  C2, as stated, fails: the year and the half are joined by a hyphen. For the example
  row (March 2023) \<open>ano_semestre\<close> is \<open>2023-S1\<close>, not the year followed by \<open>S1\<close>.
\<close>

theorem ano_semestre_counterexample:
  "ano_semestre (preparar linha_exemplo)
     \<noteq> str_int (ano linha_exemplo) @ semestre (preparar linha_exemplo)
   \<and> ano_semestre (preparar linha_exemplo) = ''2023-S1''"
  by (simp add: preparar_def linha_exemplo_def venda.extend_def venda_prep.fields_def
      semestre_de_def str_int_def str_nat.simps digit_char_def)

text \<open>
  C2, amended. Every loaded row keeps its raw columns; its \<open>semestre\<close> is \<open>S1\<close> when
  the month of its date is at most 6 and \<open>S2\<close> otherwise, and its \<open>ano_semestre\<close> is
  the decimal text of its \<open>ano\<close> column, a hyphen, and its \<open>semestre\<close>.
\<close>

theorem semestre_ano_semestre:
  "snd (carregar_dados (Presente linhas)) = Some (map preparar linhas)
   \<and> venda.truncate (preparar r) = r
   \<and> semestre (preparar r) = (if month (data r) \<le> 6 then ''S1'' else ''S2'')
   \<and> ano_semestre (preparar r) = str_int (ano r) @ ''-'' @ semestre (preparar r)"
  by (simp add: carregar_dados_def preparar_def venda.extend_def venda_prep.fields_def
      venda.truncate_def semestre_de_def)

section \<open>Year-over-year growth\<close>

text \<open>
  C6. On a table with one row of 2023 with revenue 100 and one row of 2024 with
  revenue 150 the growth is 50. On the three-row table, filtered by region A (all
  years and products selected) the growth is 20, and filtered by region B it is -100.
  The other cells of the rows do not matter.
\<close>

theorem crescimento_yoy_scenarios:
  "crescimento_yoy (calcular_metricas_principais [linha r1 2023 100 b1, linha r2 2024 150 b2])
     = Fin 50
   \<and> crescimento_yoy (calcular_metricas_principais
        (df_filtrado (cenario b1 b2 b3) (disponiveis (map ano (cenario b1 b2 b3))) [''A'']
           (disponiveis (map produto (cenario b1 b2 b3))))) = Fin 20
   \<and> crescimento_yoy (calcular_metricas_principais
        (df_filtrado (cenario b1 b2 b3) (disponiveis (map ano (cenario b1 b2 b3))) [''B'']
           (disponiveis (map produto (cenario b1 b2 b3))))) = Fin (- 100)"
  by (simp add: metricas_yoy metricas_2023 metricas_2024 df_filtrado_filter set_disponiveis
      cenario_def linha_def fsum_def notna_def fsub_def rnd64_numeral rnd64_neg_numeral
      rnd64_one arredondamentos)

text \<open>
  C7, as stated, fails: the growth is a bare division. On a table whose only row is
  of 2024, with revenue 100, the revenue of 2023 is zero and the growth is plus
  infinity.
\<close>

theorem crescimento_yoy_infinite_counterexample:
  "faturamento_2023 (calcular_metricas_principais tabela_so_2024) = Fin 0
   \<and> crescimento_yoy (calcular_metricas_principais tabela_so_2024) = PInf"
  by (simp add: metricas_yoy metricas_2023 metricas_2024 tabela_so_2024_def linha_def
      fsum_def notna_def fsub_def)

text \<open>
  C7, amended. When the revenue of 2023 is zero, the metrics are computed without
  raising and the growth is the bare quotient: NaN, plus infinity or minus infinity;
  it is NaN exactly when the revenue of 2024 is zero as well (or is itself NaN), and an
  infinity otherwise.
\<close>

theorem crescimento_yoy_zero_prior_year:
  assumes "faturamento_2023 (calcular_metricas_principais df) = Fin 0"
  shows "crescimento_yoy (calcular_metricas_principais df) \<in> {NaN, PInf, NInf}
     \<and> (crescimento_yoy (calcular_metricas_principais df) = NaN)
        = (faturamento_2024 (calcular_metricas_principais df) = Fin 0
           \<or> faturamento_2024 (calcular_metricas_principais df) = NaN)"
  using assms
  by (cases "faturamento_2024 (calcular_metricas_principais df)")
     (simp_all add: metricas_yoy fsub_def)

theorem crescimento_yoy_zero_prior_year_witness:
  "faturamento_2023 (calcular_metricas_principais tabela_so_2024) = Fin 0
   \<and> faturamento_2024 (calcular_metricas_principais tabela_so_2024) = Fin 100
   \<and> crescimento_yoy (calcular_metricas_principais tabela_so_2024) \<in> {NaN, PInf, NInf}
   \<and> crescimento_yoy (calcular_metricas_principais tabela_so_2024) \<noteq> NaN"
proof -
  have a: "faturamento_2023 (calcular_metricas_principais tabela_so_2024) = Fin 0"
    by (simp add: metricas_2023 tabela_so_2024_def linha_def)
  have b: "faturamento_2024 (calcular_metricas_principais tabela_so_2024) = Fin 100"
    by (simp add: metricas_2024 tabela_so_2024_def linha_def fsum_def notna_def)
  from crescimento_yoy_zero_prior_year [OF a] a b show ?thesis by auto
qed

text \<open>
  C10. The two revenues of the growth are the sums of the revenue over the rows of
  the input table whose year is 2023 and whose year is 2024, whatever other years the
  table holds, and the growth is their difference over the revenue of 2023, times
  100, in float arithmetic. Rows of other years do not change the growth, and a table
  with rows of other years only gives zero for both revenues (and so NaN for the
  growth). Where the revenues of the two years are whole numbers whose magnitudes add
  up to less than \<open>2 ^ 53\<close>, the two sums are the exact sums, the difference is the
  exact difference, and a difference that is \<open>k\<close> times the revenue of 2023 gives
  the growth \<open>100 * k\<close>.
\<close>

theorem crescimento_yoy_fixed_years:
  "faturamento_2023 (calcular_metricas_principais df)
     = fsum (map faturamento (filter (\<lambda>r. ano r = 2023) df))
   \<and> faturamento_2024 (calcular_metricas_principais df)
     = fsum (map faturamento (filter (\<lambda>r. ano r = 2024) df))
   \<and> crescimento_yoy (calcular_metricas_principais df)
     = fmul (fdiv (fsub (fsum (map faturamento (filter (\<lambda>r. ano r = 2024) df)))
                        (fsum (map faturamento (filter (\<lambda>r. ano r = 2023) df))))
                  (fsum (map faturamento (filter (\<lambda>r. ano r = 2023) df)))) (Fin 100)
   \<and> crescimento_yoy (calcular_metricas_principais df)
     = crescimento_yoy
         (calcular_metricas_principais (filter (\<lambda>r. ano r = 2023 \<or> ano r = 2024) df))
   \<and> ((\<forall>r \<in> set df. ano r \<noteq> 2023 \<and> ano r \<noteq> 2024) \<longrightarrow>
        faturamento_2023 (calcular_metricas_principais df) = Fin 0
        \<and> faturamento_2024 (calcular_metricas_principais df) = Fin 0
        \<and> crescimento_yoy (calcular_metricas_principais df) = NaN)
   \<and> (map faturamento (filter (\<lambda>r. ano r = 2023) df) = map (\<lambda>n. Fin (of_int n)) n23
       \<and> map faturamento (filter (\<lambda>r. ano r = 2024) df) = map (\<lambda>n. Fin (of_int n)) n24
       \<and> sum_list (map abs n23) + sum_list (map abs n24) < 2 ^ 53 \<longrightarrow>
        faturamento_2023 (calcular_metricas_principais df) = Fin (of_int (sum_list n23))
        \<and> faturamento_2024 (calcular_metricas_principais df) = Fin (of_int (sum_list n24))
        \<and> crescimento_yoy (calcular_metricas_principais df)
          = fmul (fdiv (Fin (of_int (sum_list n24 - sum_list n23)))
                       (Fin (of_int (sum_list n23)))) (Fin 100)
        \<and> (sum_list n23 \<noteq> 0 \<and> sum_list n24 - sum_list n23 = k * sum_list n23
            \<and> \<bar>100 * k\<bar> < 2 ^ 53 \<longrightarrow>
             crescimento_yoy (calcular_metricas_principais df) = Fin (of_int (100 * k))))"
proof -
  let ?m = "calcular_metricas_principais"
  let ?d = "filter (\<lambda>r. ano r = 2023 \<or> ano r = 2024) df"
  have f23: "filter (\<lambda>r. ano r = 2023) ?d = filter (\<lambda>r. ano r = 2023) df"
    by (induction df) auto
  have f24: "filter (\<lambda>r. ano r = 2024) ?d = filter (\<lambda>r. ano r = 2024) df"
    by (induction df) auto
  have inv: "crescimento_yoy (?m df) = crescimento_yoy (?m ?d)"
    by (simp only: metricas_yoy metricas_2023 metricas_2024 f23 f24)
  have none: "filter (\<lambda>r. ano r = 2023) df = [] \<and> filter (\<lambda>r. ano r = 2024) df = []"
    if "\<forall>r \<in> set df. ano r \<noteq> 2023 \<and> ano r \<noteq> 2024"
    using that by (simp add: filter_empty_conv)
  have other: "(\<forall>r \<in> set df. ano r \<noteq> 2023 \<and> ano r \<noteq> 2024) \<longrightarrow>
        faturamento_2023 (?m df) = Fin 0 \<and> faturamento_2024 (?m df) = Fin 0
        \<and> crescimento_yoy (?m df) = NaN"
    using none by (simp add: metricas_yoy metricas_2023 metricas_2024 fsub_def)
  have yoy: "crescimento_yoy (?m df)
     = fmul (fdiv (fsub (fsum (map faturamento (filter (\<lambda>r. ano r = 2024) df)))
                        (fsum (map faturamento (filter (\<lambda>r. ano r = 2023) df))))
                  (fsum (map faturamento (filter (\<lambda>r. ano r = 2023) df)))) (Fin 100)"
    by (simp only: metricas_yoy metricas_2023 metricas_2024)
  have whole: "faturamento_2023 (?m df) = Fin (of_int (sum_list n23))
        \<and> faturamento_2024 (?m df) = Fin (of_int (sum_list n24))
        \<and> crescimento_yoy (?m df)
          = fmul (fdiv (Fin (of_int (sum_list n24 - sum_list n23)))
                       (Fin (of_int (sum_list n23)))) (Fin 100)
        \<and> (sum_list n23 \<noteq> 0 \<and> sum_list n24 - sum_list n23 = k * sum_list n23
            \<and> \<bar>100 * k\<bar> < 2 ^ 53 \<longrightarrow>
             crescimento_yoy (?m df) = Fin (of_int (100 * k)))"
    if c23: "map faturamento (filter (\<lambda>r. ano r = 2023) df) = map (\<lambda>n. Fin (of_int n)) n23"
      and c24: "map faturamento (filter (\<lambda>r. ano r = 2024) df) = map (\<lambda>n. Fin (of_int n)) n24"
      and bound: "sum_list (map abs n23) + sum_list (map abs n24) < 2 ^ 53"
  proof -
    have b23: "sum_list (map abs n23) < 2 ^ 53" and b24: "sum_list (map abs n24) < 2 ^ 53"
      using bound sum_abs_nonneg [of n23] sum_abs_nonneg [of n24] by linarith+
    have s23: "faturamento_2023 (?m df) = Fin (of_int (sum_list n23))"
      by (simp only: metricas_2023 c23 fsum_ints [OF b23])
    have s24: "faturamento_2024 (?m df) = Fin (of_int (sum_list n24))"
      by (simp only: metricas_2024 c24 fsum_ints [OF b24])
    have "\<bar>sum_list n24 - sum_list n23\<bar> < 2 ^ 53"
      using bound sum_list_abs [of n23] sum_list_abs [of n24] by linarith
    then have dif: "fsub (Fin (of_int (sum_list n24))) (Fin (of_int (sum_list n23)))
        = Fin (of_int (sum_list n24 - sum_list n23))"
      by (rule fsub_int)
    have g: "crescimento_yoy (?m df)
          = fmul (fdiv (Fin (of_int (sum_list n24 - sum_list n23)))
                       (Fin (of_int (sum_list n23)))) (Fin 100)"
      by (simp only: metricas_yoy s23 s24 dif)
    have mult: "crescimento_yoy (?m df) = Fin (of_int (100 * k))"
      if nz: "sum_list n23 \<noteq> 0" and eq: "sum_list n24 - sum_list n23 = k * sum_list n23"
        and bk: "\<bar>100 * k\<bar> < 2 ^ 53"
    proof -
      have "\<bar>k\<bar> < 2 ^ 53" using bk by linarith
      then have rk: "rnd64 (of_int k) = Fin (of_int k)" by (rule rnd64_int)
      have "(of_int (k * sum_list n23) :: rat) / of_int (sum_list n23) = of_int k"
        using nz by simp
      then have q: "fdiv (Fin (of_int (k * sum_list n23))) (Fin (of_int (sum_list n23)))
          = Fin (of_int k)"
        using nz rk by simp
      have "rnd64 (of_int k * 100) = Fin (of_int (100 * k))"
        using rnd64_int [OF bk] by (simp add: mult.commute)
      then have p: "fmul (Fin (of_int k)) (Fin 100) = Fin (of_int (100 * k))"
        by simp
      show ?thesis by (simp only: g eq q p)
    qed
    from s23 s24 g mult show ?thesis by blast
  qed
  from metricas_2023 metricas_2024 yoy inv other whole show ?thesis
    by blast
qed

theorem crescimento_yoy_fixed_years_witness:
  "map ano tabela_so_2022 = [2022]
   \<and> faturamento_2023 (calcular_metricas_principais tabela_so_2022) = Fin 0
   \<and> faturamento_2024 (calcular_metricas_principais tabela_so_2022) = Fin 0
   \<and> crescimento_yoy (calcular_metricas_principais tabela_so_2022) = NaN
   \<and> map ano tabela_mista = [2022, 2023, 2024, 2024]
   \<and> faturamento_2023 (calcular_metricas_principais tabela_mista) = Fin 100
   \<and> faturamento_2024 (calcular_metricas_principais tabela_mista) = Fin 200
   \<and> crescimento_yoy (calcular_metricas_principais tabela_mista) = Fin 100"
proof -
  let ?m = "calcular_metricas_principais"
  have a1: "map ano tabela_so_2022 = [2022]"
    and a2: "\<forall>r \<in> set tabela_so_2022. ano r \<noteq> 2023 \<and> ano r \<noteq> 2024"
    by (simp_all add: tabela_so_2022_def linha_def)
  from crescimento_yoy_fixed_years [of tabela_so_2022 "[]" "[]" 0] a2
  have p1: "faturamento_2023 (?m tabela_so_2022) = Fin 0
      \<and> faturamento_2024 (?m tabela_so_2022) = Fin 0
      \<and> crescimento_yoy (?m tabela_so_2022) = NaN"
    by blast
  have b1: "map ano tabela_mista = [2022, 2023, 2024, 2024]"
    and b2: "map faturamento (filter (\<lambda>r. ano r = 2023) tabela_mista)
        = map (\<lambda>n. Fin (of_int n)) [100]"
    and b3: "map faturamento (filter (\<lambda>r. ano r = 2024) tabela_mista)
        = map (\<lambda>n. Fin (of_int n)) [150, 50]"
    by (simp_all add: tabela_mista_def linha_def)
  have b4: "sum_list (map abs [100 :: int]) + sum_list (map abs [150, 50]) < 2 ^ 53"
    and b5: "sum_list [100 :: int] \<noteq> 0"
    and b6: "sum_list [150, 50] - sum_list [100 :: int] = 1 * sum_list [100]"
    and b7: "\<bar>100 * 1 :: int\<bar> < 2 ^ 53"
    by simp_all
  from crescimento_yoy_fixed_years [of tabela_mista "[100]" "[150, 50]" 1] b2 b3 b4 b5 b6 b7
  have "faturamento_2023 (?m tabela_mista) = Fin (of_int (sum_list [100]))
      \<and> faturamento_2024 (?m tabela_mista) = Fin (of_int (sum_list [150, 50]))
      \<and> crescimento_yoy (?m tabela_mista) = Fin (of_int (100 * 1))"
    by blast
  then have p2: "faturamento_2023 (?m tabela_mista) = Fin 100
      \<and> faturamento_2024 (?m tabela_mista) = Fin 200
      \<and> crescimento_yoy (?m tabela_mista) = Fin 100"
    by simp
  from a1 p1 b1 p2 show ?thesis by blast
qed

section \<open>Revenue by category\<close>












section \<open>The missing file\<close>

text \<open>
  C9. When the file is absent, \<open>carregar_dados\<close> shows its message and returns
  \<open>None\<close> instead of raising. The run of the script then consists of the page set-up
  and the sidebar's navigation, which come before the load and do not depend on the
  data, and the two error messages: no filter box is shown, no table is filtered, no
  metric is computed and no page body is rendered.
\<close>

theorem script_arquivo_ausente:
  "carregar_dados Ausente = ([ArquivoNaoEncontrado], None)
   \<and> script Ausente u =
       \<lparr> eventos = cabecalho @ [StError ArquivoNaoEncontrado, StError NaoFoiPossivelCarregar],
         filtrado = None, metricas_calc = None \<rparr>"
  by (simp add: carregar_dados_def script_def)

end
